theory Spec2Isabelle
  imports Main
begin

section \<open>Python values as the harness sees them\<close>

text \<open>
  The harness (\<^verbatim>\<open>testing_utils.py\<close>, \<^verbatim>\<open>eval.py\<close>) handles values decoded from JSON
  and values returned by candidate functions. They are modelled by the JSON-shaped
  fragment of Python: \<^verbatim>\<open>None\<close>, booleans, unbounded integers, strings, lists and
  dictionaries with string keys (an association list, in insertion order). Every other
  object a candidate function can return (an instance of a class of its own, a tuple,
  a \<^verbatim>\<open>numpy\<close> array or scalar) is opaque: \<open>PObj c h\<close> is the object with identity \<open>h\<close>
  whose class is named \<open>c\<close>. What such an object does when it is compared, tested for
  truth or converted to a string is up to its class. JSON numbers with a fraction or an
  exponent (floats) are outside the model.
\<close>

datatype pyval =
    PNone
  | PBool bool
  | PInt int
  | PStr string
  | PList "pyval list"
  | PDict "(string \<times> pyval) list"
  | PObj string nat

text \<open>
  Truthiness, as tested by \<^verbatim>\<open>if x:\<close> on the values the harness decodes from JSON
  (\<^verbatim>\<open>fn_name\<close>, the code of a generation). For an opaque object it is the default of
  \<^verbatim>\<open>object\<close>; the truth test of a value that comes from candidate code is \<open>do_bool\<close>
  below, which runs the class's own \<^verbatim>\<open>__bool__\<close>.
\<close>

fun py_truthy :: "pyval \<Rightarrow> bool" where
  "py_truthy PNone = False"
| "py_truthy (PBool b) = b"
| "py_truthy (PInt i) = (i \<noteq> 0)"
| "py_truthy (PStr s) = (s \<noteq> [])"
| "py_truthy (PList xs) = (xs \<noteq> [])"
| "py_truthy (PDict d) = (d \<noteq> [])"
| "py_truthy (PObj c h) = True"

text \<open>\<^verbatim>\<open>type(x).__name__\<close> for the values of the model.\<close>

fun py_type_name :: "pyval \<Rightarrow> string" where
  "py_type_name PNone = ''NoneType''"
| "py_type_name (PBool b) = ''bool''"
| "py_type_name (PInt i) = ''int''"
| "py_type_name (PStr s) = ''str''"
| "py_type_name (PList xs) = ''list''"
| "py_type_name (PDict d) = ''dict''"
| "py_type_name (PObj c h) = c"

text \<open>
  The values built without any opaque object.
\<close>

fun plain :: "pyval \<Rightarrow> bool"
  and plain_list :: "pyval list \<Rightarrow> bool"
  and plain_items :: "(string \<times> pyval) list \<Rightarrow> bool"
where
  "plain PNone = True"
| "plain (PBool b) = True"
| "plain (PInt i) = True"
| "plain (PStr s) = True"
| "plain (PList xs) = plain_list xs"
| "plain (PDict d) = plain_items d"
| "plain (PObj c h) = False"
| "plain_list [] = True"
| "plain_list (x # xs) = (plain x \<and> plain_list xs)"
| "plain_items [] = True"
| "plain_items ((k, v) # d) = (plain v \<and> plain_items d)"

text \<open>
  Python's \<^verbatim>\<open>==\<close> on such values, where it is deep structural equality and returns a
  \<^verbatim>\<open>bool\<close>: \<^verbatim>\<open>bool\<close> is a subclass of \<^verbatim>\<open>int\<close>, so \<^verbatim>\<open>True == 1\<close>; lists are
  compared by length and then element by element; dictionaries (whose keys are distinct)
  by size and then key by key, whatever the insertion order; values of unrelated types
  are unequal. The clause for an opaque object is the default of \<^verbatim>\<open>object\<close>
  (identity); the harness's comparison of a value that involves an opaque object is
  \<open>do_eq\<close> below, which runs the class's own \<^verbatim>\<open>__eq__\<close>.
\<close>

fun py_num :: "pyval \<Rightarrow> int option" where
  "py_num (PBool b) = Some (if b then 1 else 0)"
| "py_num (PInt i) = Some i"
| "py_num _ = None"

fun py_eq :: "pyval \<Rightarrow> pyval \<Rightarrow> bool"
  and py_eq_list :: "pyval list \<Rightarrow> pyval list \<Rightarrow> bool"
  and py_dict_sub :: "(string \<times> pyval) list \<Rightarrow> (string \<times> pyval) list \<Rightarrow> bool"
  and py_dict_has :: "string \<Rightarrow> pyval \<Rightarrow> (string \<times> pyval) list \<Rightarrow> bool"
where
  "py_eq PNone b = (b = PNone)"
| "py_eq (PBool x) b = (py_num b = Some (if x then 1 else 0))"
| "py_eq (PInt x) b = (py_num b = Some x)"
| "py_eq (PStr s) b = (b = PStr s)"
| "py_eq (PList xs) b = (case b of PList ys \<Rightarrow> py_eq_list xs ys | _ \<Rightarrow> False)"
| "py_eq (PDict d) b =
     (case b of PDict e \<Rightarrow> length d = length e \<and> py_dict_sub d e | _ \<Rightarrow> False)"
| "py_eq (PObj c h) b = (b = PObj c h)"
| "py_eq_list [] ys = (ys = [])"
| "py_eq_list (x # xs) ys =
     (case ys of [] \<Rightarrow> False | y # ys' \<Rightarrow> py_eq x y \<and> py_eq_list xs ys')"
| "py_dict_sub [] e = True"
| "py_dict_sub ((k, v) # d) e = (py_dict_has k v e \<and> py_dict_sub d e)"
| "py_dict_has k v [] = False"
| "py_dict_has k v ((k', v') # e) = (if k = k' then py_eq v v' else py_dict_has k v e)"

text \<open>
  \<^verbatim>\<open>str.strip()\<close> without arguments removes leading and trailing whitespace.
  A \<open>char\<close> stands for a code point below 256; the whitespace ones are those for which
  \<^verbatim>\<open>str.isspace\<close> holds.
\<close>

definition py_isspace :: "char \<Rightarrow> bool" where
  "py_isspace c = ((of_char c :: nat) \<in> {9, 10, 11, 12, 13, 28, 29, 30, 31, 32, 133, 160})"

definition py_strip :: "string \<Rightarrow> string" where
  "py_strip s = rev (dropWhile py_isspace (rev (dropWhile py_isspace s)))"

section \<open>Exceptions and outcomes\<close>

text \<open>
  A raised exception, as far as the harness inspects it: \<^verbatim>\<open>type(e).__name__\<close>,
  \<^verbatim>\<open>str(e)\<close>, and whether it is an instance of \<^verbatim>\<open>Exception\<close>, which is what the
  clauses \<^verbatim>\<open>except Exception\<close> test. \<^verbatim>\<open>SystemExit\<close>, \<^verbatim>\<open>KeyboardInterrupt\<close> and
  \<^verbatim>\<open>GeneratorExit\<close> derive from \<^verbatim>\<open>BaseException\<close> only. The class \<^verbatim>\<open>Timeout\<close> of
  \<^verbatim>\<open>testing_utils.py\<close> derives from \<^verbatim>\<open>Exception\<close>.
\<close>

datatype exn = Exn (exn_name: string) (exn_str: string) (exn_is_Exception: bool)

text \<open>
  Running Python code either returns, raises, or does not come back at all.
\<close>

datatype 'a outcome = Return 'a | Raise exn | Hang

text \<open>Exceptions raised by the interpreter inside the harness's own statements.\<close>

fun dec_of_nat :: "nat \<Rightarrow> string" where
  "dec_of_nat n =
     (if n < 10 then [''0123456789'' ! n]
      else dec_of_nat (n div 10) @ [''0123456789'' ! (n mod 10)])"

definition py_quote :: "string \<Rightarrow> string" where
  "py_quote s = CHR 0x27 # s @ [CHR 0x27]"

definition AttributeError :: "pyval \<Rightarrow> string \<Rightarrow> exn" where
  "AttributeError v a =
     Exn ''AttributeError''
       (py_quote (py_type_name v) @ '' object has no attribute '' @ py_quote a) True"

definition TypeError_not_iterable :: "pyval \<Rightarrow> exn" where
  "TypeError_not_iterable v =
     Exn ''TypeError'' (py_quote (py_type_name v) @ '' object is not iterable'') True"

definition TypeError_not_subscriptable :: "pyval \<Rightarrow> exn" where
  "TypeError_not_subscriptable v =
     Exn ''TypeError'' (py_quote (py_type_name v) @ '' object is not subscriptable'') True"

definition IndexError :: "string \<Rightarrow> exn" where
  "IndexError what = Exn ''IndexError'' (what @ '' index out of range'') True"

definition KeyError :: "nat \<Rightarrow> exn" where
  "KeyError i = Exn ''KeyError'' (dec_of_nat i) True"

text \<open>
  \<^verbatim>\<open>io.get(key, default)\<close>: only a dictionary has the method. A JSON object decoded by
  \<^verbatim>\<open>json.loads\<close> has distinct keys.
\<close>

definition py_get :: "pyval \<Rightarrow> string \<Rightarrow> pyval \<Rightarrow> exn + pyval" where
  "py_get io k dflt =
     (case io of
        PDict d \<Rightarrow> Inr (case map_of d k of Some v \<Rightarrow> v | None \<Rightarrow> dflt)
      | _ \<Rightarrow> Inl (AttributeError io ''get''))"

text \<open>
  The items \<^verbatim>\<open>enumerate(ins)\<close> runs over: the elements of a list, the characters of a
  string, the keys of a dictionary; anything else is not iterable.
\<close>

definition py_iter :: "pyval \<Rightarrow> exn + pyval list" where
  "py_iter v =
     (case v of
        PList xs \<Rightarrow> Inr xs
      | PStr s \<Rightarrow> Inr (map (\<lambda>c. PStr [c]) s)
      | PDict d \<Rightarrow> Inr (map (\<lambda>(k, _). PStr k) d)
      | _ \<Rightarrow> Inl (TypeError_not_iterable v))"

text \<open>
  \<^verbatim>\<open>outs[i]\<close> for an index \<open>i \<ge> 0\<close> coming from \<^verbatim>\<open>enumerate\<close>. The keys of a decoded
  JSON object are strings, so an integer key is never found.
\<close>

definition py_index :: "pyval \<Rightarrow> nat \<Rightarrow> exn + pyval" where
  "py_index v i =
     (case v of
        PList xs \<Rightarrow> (if i < length xs then Inr (xs ! i) else Inl (IndexError ''list''))
      | PStr s \<Rightarrow> (if i < length s then Inr (PStr [s ! i]) else Inl (IndexError ''string''))
      | PDict d \<Rightarrow> Inl (KeyError i)
      | _ \<Rightarrow> Inl (TypeError_not_subscriptable v))"

section \<open>The process state and the interpreter\<close>

text \<open>
  The part of the process state the harness reads or writes: the object bound to
  \<^verbatim>\<open>sys.stdout\<close> (a handle), the text of every \<^verbatim>\<open>StringIO\<close> object, the pending
  \<^verbatim>\<open>SIGALRM\<close> alarm in seconds (0: none), the next unused object handle, and
  everything else candidate code can reach (\<open>cand\<close>: module dictionaries, globals).
  \<open>trace\<close> records, in order, the effectful operations the harness performed.
\<close>

datatype event =
    EvExec pyval nat
  | EvGetattr nat pyval
  | EvCall nat "pyval list"
  | EvAlarm nat
  | EvSetStdout nat
  | EvEq pyval pyval
  | EvBool pyval
  | EvStr pyval

record 's world =
  sys_stdout :: nat
  buffers :: "nat \<Rightarrow> string option"
  alarm :: nat
  next_obj :: nat
  trace :: "event list"
  cand :: 's

text \<open>
  What the harness asks of Python and of the candidate, left abstract: decoding and
  encoding JSON, \<^verbatim>\<open>ast.parse\<close> succeeding, \<^verbatim>\<open>str\<close> of integers and containers (which
  can raise, for instance \<^verbatim>\<open>ValueError\<close> beyond the integer digit limit or
  \<^verbatim>\<open>RecursionError\<close> on deep nesting), \<^verbatim>\<open>traceback.format_exc()\<close> for the exception being
  handled, and the three ways candidate code runs: \<^verbatim>\<open>exec(code, mod.__dict__)\<close>,
  \<^verbatim>\<open>getattr(mod, name)\<close> and a call \<^verbatim>\<open>fn(*args)\<close>. Candidate code may change the
  whole process state, the alarm and \<^verbatim>\<open>sys.stdout\<close> included. The last three
  fields are the operations the harness applies to a value a candidate function
  returned, when an opaque object is involved: \<^verbatim>\<open>a == b\<close>, which returns whatever
  object the class's \<^verbatim>\<open>__eq__\<close> returns, the truth test \<^verbatim>\<open>bool(v)\<close> and \<^verbatim>\<open>str(v)\<close>.
  They run code of the object's class, so they too may raise, not come back, or change
  the process state.
\<close>

record 's interp =
  json_loads :: "string \<Rightarrow> exn + pyval"
  json_dumps :: "pyval \<Rightarrow> string"
  ast_parse :: "pyval \<Rightarrow> bool"
  str_builtin :: "pyval \<Rightarrow> exn + string"
  format_exc :: "exn \<Rightarrow> string"
  exec_code :: "pyval \<Rightarrow> nat \<Rightarrow> 's world \<Rightarrow> unit outcome \<times> 's world"
  getattr_mod :: "nat \<Rightarrow> pyval \<Rightarrow> 's world \<Rightarrow> nat outcome \<times> 's world"
  call_fn :: "nat \<Rightarrow> pyval list \<Rightarrow> 's world \<Rightarrow> pyval outcome \<times> 's world"
  eq_obj :: "pyval \<Rightarrow> pyval \<Rightarrow> 's world \<Rightarrow> pyval outcome \<times> 's world"
  bool_obj :: "pyval \<Rightarrow> 's world \<Rightarrow> bool outcome \<times> 's world"
  str_obj :: "pyval \<Rightarrow> 's world \<Rightarrow> string outcome \<times> 's world"

text \<open>
  \<^verbatim>\<open>str(x)\<close> of a value without opaque objects: fixed on \<^verbatim>\<open>None\<close>, booleans and
  strings, the interpreter's otherwise.
\<close>

definition py_str :: "'s interp \<Rightarrow> pyval \<Rightarrow> exn + string" where
  "py_str I v =
     (case v of
        PNone \<Rightarrow> Inr ''None''
      | PBool b \<Rightarrow> Inr (if b then ''True'' else ''False'')
      | PStr s \<Rightarrow> Inr s
      | _ \<Rightarrow> str_builtin I v)"

text \<open>The three candidate operations, each leaving its event in the trace.\<close>

definition do_exec :: "'s interp \<Rightarrow> pyval \<Rightarrow> nat \<Rightarrow> 's world \<Rightarrow> unit outcome \<times> 's world" where
  "do_exec I code m w =
     (case exec_code I code m w of (r, w') \<Rightarrow> (r, w'\<lparr>trace := trace w @ [EvExec code m]\<rparr>))"

definition do_getattr :: "'s interp \<Rightarrow> nat \<Rightarrow> pyval \<Rightarrow> 's world \<Rightarrow> nat outcome \<times> 's world" where
  "do_getattr I m name w =
     (case getattr_mod I m name w of (r, w') \<Rightarrow> (r, w'\<lparr>trace := trace w @ [EvGetattr m name]\<rparr>))"

definition do_call :: "'s interp \<Rightarrow> nat \<Rightarrow> pyval list \<Rightarrow> 's world \<Rightarrow> pyval outcome \<times> 's world" where
  "do_call I f args w =
     (case call_fn I f args w of (r, w') \<Rightarrow> (r, w'\<lparr>trace := trace w @ [EvCall f args]\<rparr>))"

text \<open>
  \<^verbatim>\<open>got == expected\<close>, the truth test in \<^verbatim>\<open>None if ok else ...\<close> and \<^verbatim>\<open>str(got)\<close>,
  as \<^verbatim>\<open>run_test\<close> applies them to what a candidate function returned. Between values
  without opaque objects the comparison is structural and returns a \<^verbatim>\<open>bool\<close>;
  otherwise its result is the object \<^verbatim>\<open>__eq__\<close> returns, which need not be a
  \<^verbatim>\<open>bool\<close>. The truth of a list or dictionary is its being non-empty, whatever it
  holds; that of an opaque object is its class's.
\<close>

definition do_eq :: "'s interp \<Rightarrow> pyval \<Rightarrow> pyval \<Rightarrow> 's world \<Rightarrow> pyval outcome \<times> 's world" where
  "do_eq I a b w =
     (if plain a \<and> plain b then (Return (PBool (py_eq a b)), w)
      else (case eq_obj I a b w of (r, w') \<Rightarrow> (r, w'\<lparr>trace := trace w @ [EvEq a b]\<rparr>)))"

definition do_bool :: "'s interp \<Rightarrow> pyval \<Rightarrow> 's world \<Rightarrow> bool outcome \<times> 's world" where
  "do_bool I v w =
     (case v of
        PObj c h \<Rightarrow>
          (case bool_obj I v w of (r, w') \<Rightarrow> (r, w'\<lparr>trace := trace w @ [EvBool v]\<rparr>))
      | _ \<Rightarrow> (Return (py_truthy v), w))"

definition do_str :: "'s interp \<Rightarrow> pyval \<Rightarrow> 's world \<Rightarrow> string outcome \<times> 's world" where
  "do_str I v w =
     (if plain v
      then (case py_str I v of Inl e \<Rightarrow> (Raise e, w) | Inr s \<Rightarrow> (Return s, w))
      else (case str_obj I v w of (r, w') \<Rightarrow> (r, w'\<lparr>trace := trace w @ [EvStr v]\<rparr>)))"

text \<open>\<^verbatim>\<open>signal.alarm(n)\<close>.\<close>

definition signal_alarm :: "nat \<Rightarrow> 's world \<Rightarrow> 's world" where
  "signal_alarm n w = w\<lparr>alarm := n, trace := trace w @ [EvAlarm n]\<rparr>"

section \<open>The executor (\<^verbatim>\<open>testing_utils.py\<close>)\<close>

definition TIMEOUT :: nat where
  "TIMEOUT = 10"

text \<open>
  Module initialisation: on every platform but Windows the \<^verbatim>\<open>SIGALRM\<close> handler that
  raises \<^verbatim>\<open>Timeout\<close> is installed; on Windows a warning line is printed instead.
  The result is the flag \<^verbatim>\<open>SIGNAL_AVAILABLE\<close> and the lines printed.
\<close>

definition module_init :: "string \<Rightarrow> bool \<times> string list" where
  "module_init platform_system =
     (if platform_system \<noteq> ''Windows'' then (True, [])
      else (False, [''Warning: Timeout not available on Windows'']))"

definition SIGNAL_AVAILABLE :: "string \<Rightarrow> bool" where
  "SIGNAL_AVAILABLE platform_system = fst (module_init platform_system)"

text \<open>
  \<^verbatim>\<open>create_module_from_string(name, code)\<close>: a new module object, then the code is
  executed in its dictionary. Whatever \<^verbatim>\<open>exec\<close> raises passes through.
\<close>

definition create_module_from_string ::
  "'s interp \<Rightarrow> string \<Rightarrow> pyval \<Rightarrow> 's world \<Rightarrow> nat outcome \<times> 's world" where
  "create_module_from_string I name code w =
     (let mod' = next_obj w;
          w1 = w\<lparr>next_obj := Suc mod'\<rparr>
      in case do_exec I code mod' w1 of
           (Return _, w2) \<Rightarrow> (Return mod', w2)
         | (Raise e, w2) \<Rightarrow> (Raise e, w2)
         | (Hang, w2) \<Rightarrow> (Hang, w2))"

text \<open>
  \<^verbatim>\<open>_run_script_and_capture_output(code_str, mod)\<close>: \<^verbatim>\<open>sys.stdout\<close> is saved and
  bound to a new, empty \<^verbatim>\<open>StringIO\<close>; inside \<^verbatim>\<open>try\<close> the code runs and
  \<^verbatim>\<open>sys.stdout.getvalue()\<close> is read from whatever \<^verbatim>\<open>sys.stdout\<close> then is (only a
  \<^verbatim>\<open>StringIO\<close> has the method); \<^verbatim>\<open>finally\<close> binds \<^verbatim>\<open>sys.stdout\<close> to the saved
  object.
\<close>

definition redirect_stdout :: "'s world \<Rightarrow> 's world" where
  "redirect_stdout w =
     (let buf = next_obj w
      in w\<lparr>sys_stdout := buf, buffers := (buffers w)(buf \<mapsto> []),
            next_obj := Suc buf, trace := trace w @ [EvSetStdout buf]\<rparr>)"

definition restore_stdout :: "nat \<Rightarrow> 's world \<Rightarrow> 's world" where
  "restore_stdout old_stdout w =
     w\<lparr>sys_stdout := old_stdout, trace := trace w @ [EvSetStdout old_stdout]\<rparr>"

definition getvalue_error :: exn where
  "getvalue_error =
     Exn ''AttributeError'' (''object has no attribute '' @ py_quote ''getvalue'') True"

definition run_script_and_capture_output ::
  "'s interp \<Rightarrow> pyval \<Rightarrow> nat \<Rightarrow> 's world \<Rightarrow> string outcome \<times> 's world" where
  "run_script_and_capture_output I code_str mod' w =
     (let old_stdout = sys_stdout w;
          w1 = redirect_stdout w
      in case do_exec I code_str mod' w1 of
           (Hang, w2) \<Rightarrow> (Hang, w2)
         | (Raise e, w2) \<Rightarrow> (Raise e, restore_stdout old_stdout w2)
         | (Return _, w2) \<Rightarrow>
             (case buffers w2 (sys_stdout w2) of
                None \<Rightarrow> (Raise getvalue_error, restore_stdout old_stdout w2)
              | Some output \<Rightarrow> (Return output, restore_stdout old_stdout w2)))"

text \<open>
  The loop state of \<^verbatim>\<open>run_test\<close>: the two lists it appends to and the process state.
  Verdicts are Python values: the result of a comparison (in function mode whatever
  \<^verbatim>\<open>got == outs[i]\<close> returned), the \<^verbatim>\<open>False\<close> of the handler, or the integer \<open>-2\<close> of
  a failed load. An error entry is \<^verbatim>\<open>None\<close> or a dictionary
  \<^verbatim>\<open>{"name": .., "value": ..}\<close>.
\<close>

datatype errdesc = ErrD (err_name: string) (err_value: string)

record 's frame =
  res :: "pyval list"
  err :: "errdesc option list"
  world :: "'s world"

text \<open>
  \<^verbatim>\<open>if SIGNAL_AVAILABLE: signal.alarm(TIMEOUT)\<close> and
  \<^verbatim>\<open>if SIGNAL_AVAILABLE: signal.alarm(0)\<close>.
\<close>

definition arm :: "bool \<Rightarrow> 's frame \<Rightarrow> 's frame" where
  "arm sig st = (if sig then st\<lparr>world := signal_alarm TIMEOUT (world st)\<rparr> else st)"

definition disarm :: "bool \<Rightarrow> 's frame \<Rightarrow> 's frame" where
  "disarm sig st = (if sig then st\<lparr>world := signal_alarm 0 (world st)\<rparr> else st)"

text \<open>
  The body of the \<^verbatim>\<open>try\<close> block for case \<open>i\<close> with input \<open>inp\<close>. Lists appended to
  before an exception is raised stay appended. In \<^verbatim>\<open>got == outs[i]\<close> the index is
  evaluated before the comparison. In function mode \<open>ok\<close> is the object the comparison
  returned, appended as it is by \<^verbatim>\<open>res.append(ok)\<close>, a statement of its own; the
  next statement tests the truth of \<open>ok\<close> and, when it is false, evaluates
  \<^verbatim>\<open>str(got)\<close>, and appends to \<open>err\<close> only when both came back. In script mode both
  sides of the comparison are strings, so \<open>ok\<close> is a \<^verbatim>\<open>bool\<close>.
\<close>

definition case_body ::
  "'s interp \<Rightarrow> bool \<Rightarrow> pyval \<Rightarrow> nat \<Rightarrow> pyval \<Rightarrow> pyval \<Rightarrow> nat \<Rightarrow> pyval \<Rightarrow> 's frame
     \<Rightarrow> unit outcome \<times> 's frame" where
  "case_body I sig fn_name mod' test outs i inp st =
     (let st1 = arm sig st in
      if py_truthy fn_name then
        (case do_getattr I mod' fn_name (world st1) of
           (Hang, w) \<Rightarrow> (Hang, st1\<lparr>world := w\<rparr>)
         | (Raise e, w) \<Rightarrow> (Raise e, st1\<lparr>world := w\<rparr>)
         | (Return fn, w) \<Rightarrow>
             (case do_call I fn (case inp of PList args \<Rightarrow> args | _ \<Rightarrow> [inp]) w of
                (Hang, w') \<Rightarrow> (Hang, st1\<lparr>world := w'\<rparr>)
              | (Raise e, w') \<Rightarrow> (Raise e, st1\<lparr>world := w'\<rparr>)
              | (Return got, w') \<Rightarrow>
                  (case py_index outs i of
                     Inl e \<Rightarrow> (Raise e, st1\<lparr>world := w'\<rparr>)
                   | Inr expected \<Rightarrow>
                       (case do_eq I got expected w' of
                          (Hang, w2) \<Rightarrow> (Hang, st1\<lparr>world := w2\<rparr>)
                        | (Raise e, w2) \<Rightarrow> (Raise e, st1\<lparr>world := w2\<rparr>)
                        | (Return ok, w2) \<Rightarrow>
                            (let st2 = st1\<lparr>res := res st1 @ [ok], world := w2\<rparr>
                             in case do_bool I ok w2 of
                                  (Hang, w3) \<Rightarrow> (Hang, st2\<lparr>world := w3\<rparr>)
                                | (Raise e, w3) \<Rightarrow> (Raise e, st2\<lparr>world := w3\<rparr>)
                                | (Return truthy, w3) \<Rightarrow>
                                    (if truthy
                                     then (Return (),
                                           disarm sig
                                             (st2\<lparr>err := err st2 @ [None], world := w3\<rparr>))
                                     else (case do_str I got w3 of
                                             (Hang, w4) \<Rightarrow> (Hang, st2\<lparr>world := w4\<rparr>)
                                           | (Raise e, w4) \<Rightarrow> (Raise e, st2\<lparr>world := w4\<rparr>)
                                           | (Return s, w4) \<Rightarrow>
                                               (Return (),
                                                disarm sig
                                                  (st2\<lparr>err := err st2 @
                                                         [Some (ErrD ''WrongOutput'' s)],
                                                       world := w4\<rparr>)))))))))
      else
        (case run_script_and_capture_output I test mod' (world st1) of
           (Hang, w) \<Rightarrow> (Hang, st1\<lparr>world := w\<rparr>)
         | (Raise e, w) \<Rightarrow> (Raise e, st1\<lparr>world := w\<rparr>)
         | (Return output, w) \<Rightarrow>
             (case py_index outs i of
                Inl e \<Rightarrow> (Raise e, st1\<lparr>world := w\<rparr>)
              | Inr expected \<Rightarrow>
                  (case py_str I expected of
                     Inl e \<Rightarrow> (Raise e, st1\<lparr>world := w\<rparr>)
                   | Inr s \<Rightarrow>
                       (let ok = (py_strip output = py_strip s);
                            st2 = st1\<lparr>res := res st1 @ [PBool ok], world := w\<rparr>
                        in (Return (),
                            disarm sig
                              (st2\<lparr>err := err st2 @
                                   [if ok then None else Some (ErrD ''WrongStdout'' output)]\<rparr>)))))))"

text \<open>
  The handler \<^verbatim>\<open>except Exception as e\<close> of the loop, and one iteration: an exception
  that is not an instance of \<^verbatim>\<open>Exception\<close> is not handled and leaves the loop.
\<close>

definition case_handler :: "'s interp \<Rightarrow> bool \<Rightarrow> exn \<Rightarrow> 's frame \<Rightarrow> 's frame" where
  "case_handler I sig e st =
     (let st1 = disarm sig st
      in st1\<lparr>res := res st1 @ [PBool False],
              err := err st1 @ [Some (ErrD (exn_name e) (format_exc I e))]\<rparr>)"

definition run_case ::
  "'s interp \<Rightarrow> bool \<Rightarrow> pyval \<Rightarrow> nat \<Rightarrow> pyval \<Rightarrow> pyval \<Rightarrow> nat \<Rightarrow> pyval \<Rightarrow> 's frame
     \<Rightarrow> unit outcome \<times> 's frame" where
  "run_case I sig fn_name mod' test outs i inp st =
     (case case_body I sig fn_name mod' test outs i inp st of
        (Raise e, st') \<Rightarrow>
          (if exn_is_Exception e then (Return (), case_handler I sig e st') else (Raise e, st'))
      | r \<Rightarrow> r)"

text \<open>The loop \<^verbatim>\<open>for i, inp in enumerate(ins)\<close>, from index \<open>i\<close> on.\<close>

fun run_cases ::
  "'s interp \<Rightarrow> bool \<Rightarrow> pyval \<Rightarrow> nat \<Rightarrow> pyval \<Rightarrow> pyval \<Rightarrow> nat \<Rightarrow> pyval list \<Rightarrow> 's frame
     \<Rightarrow> unit outcome \<times> 's frame" where
  "run_cases I sig fn_name mod' test outs i [] st = (Return (), st)"
| "run_cases I sig fn_name mod' test outs i (inp # ins) st =
     (case run_case I sig fn_name mod' test outs i inp st of
        (Return _, st') \<Rightarrow> run_cases I sig fn_name mod' test outs (Suc i) ins st'
      | (Raise e, st') \<Rightarrow> (Raise e, st')
      | (Hang, st') \<Rightarrow> (Hang, st'))"

text \<open>
  \<^verbatim>\<open>run_test(sample, test)\<close>; \<open>sample\<close> is the string under the key
  \<^verbatim>\<open>"input_output"\<close>. Decoding, the three \<^verbatim>\<open>io.get\<close> and \<^verbatim>\<open>enumerate(ins)\<close> are
  outside every \<^verbatim>\<open>try\<close>.
\<close>

definition load_failure :: "exn \<Rightarrow> pyval list \<times> errdesc option list" where
  "load_failure e = ([PInt (- 2)], [Some (ErrD (exn_name e) (exn_str e))])"

definition run_test ::
  "'s interp \<Rightarrow> bool \<Rightarrow> string \<Rightarrow> pyval \<Rightarrow> 's world
     \<Rightarrow> (pyval list \<times> errdesc option list) outcome \<times> 's world" where
  "run_test I sig sample test w =
     (case json_loads I sample of
        Inl e \<Rightarrow> (Raise e, w)
      | Inr io \<Rightarrow>
     (case py_get io ''inputs'' (PList []) of
        Inl e \<Rightarrow> (Raise e, w)
      | Inr ins \<Rightarrow>
     (case py_get io ''outputs'' (PList []) of
        Inl e \<Rightarrow> (Raise e, w)
      | Inr outs \<Rightarrow>
     (case py_get io ''fn_name'' PNone of
        Inl e \<Rightarrow> (Raise e, w)
      | Inr fn_name \<Rightarrow>
     (case create_module_from_string I ''tmp'' test w of
        (Hang, w1) \<Rightarrow> (Hang, w1)
      | (Raise e, w1) \<Rightarrow>
          (if exn_is_Exception e then (Return (load_failure e), w1) else (Raise e, w1))
      | (Return mod', w1) \<Rightarrow>
     (case py_iter ins of
        Inl e \<Rightarrow> (Raise e, w1)
      | Inr cases \<Rightarrow>
     (case run_cases I sig fn_name mod' test outs 0 cases \<lparr>res = [], err = [], world = w1\<rparr> of
        (Hang, st) \<Rightarrow> (Hang, world st)
      | (Raise e, st) \<Rightarrow> (Raise e, world st)
      | (Return _, st) \<Rightarrow> (Return (res st, err st), world st))))))))"

section \<open>Boundary validation (\<^verbatim>\<open>utils.py\<close>)\<close>


section \<open>Per-candidate evaluation and aggregation (\<^verbatim>\<open>eval.py\<close>)\<close>

text \<open>
  A generation \<open>g\<close> is a decoded JSON object. \<^verbatim>\<open>g.get(k, default)\<close>:
\<close>

definition dict_get :: "(string \<times> pyval) list \<Rightarrow> string \<Rightarrow> pyval \<Rightarrow> pyval" where
  "dict_get g k dflt = (case map_of g k of Some v \<Rightarrow> v | None \<Rightarrow> dflt)"

text \<open>
  The code of a generation: the field \<^verbatim>\<open>deal_response\<close>, else \<^verbatim>\<open>solutions\<close>, else
  the empty string; the first element of a non-empty list; a string as it is; for
  anything else \<^verbatim>\<open>str(code)\<close> when truthy (which can raise, outside any \<^verbatim>\<open>try\<close>) and
  the empty string when not.
\<close>

definition get_code :: "'s interp \<Rightarrow> (string \<times> pyval) list \<Rightarrow> exn + pyval" where
  "get_code I g =
     (let code = dict_get g ''deal_response'' (dict_get g ''solutions'' (PStr ''''))
      in case code of
           PList (c # _) \<Rightarrow> Inr c
         | PStr s \<Rightarrow> Inr (PStr s)
         | _ \<Rightarrow>
             (if py_truthy code
              then (case py_str I code of Inl e \<Rightarrow> Inl e | Inr s \<Rightarrow> Inr (PStr s))
              else Inr (PStr '''')))"

text \<open>The test specification as a string: re-encoded when it is not one already.\<close>

definition get_io :: "'s interp \<Rightarrow> (string \<times> pyval) list \<Rightarrow> string" where
  "get_io I g =
     (case dict_get g ''input_output'' (PStr ''{}'') of
        PStr s \<Rightarrow> s
      | io \<Rightarrow> json_dumps I io)"

definition check_syntax_valid :: "'s interp \<Rightarrow> pyval \<Rightarrow> bool" where
  "check_syntax_valid I code = ast_parse I code"

record result =
  task_id :: pyval
  passed :: bool
  syntax_valid :: bool
  error :: "errdesc option list"
  error_name :: "string option"
  num_tests :: nat
  num_passed :: nat

text \<open>
  The scan \<^verbatim>\<open>for e in err: if e: error_name = e.get("name", "Unknown"); break\<close>. Every
  descriptor is a two-key dictionary, so it is truthy and has the key.
\<close>

fun first_error_name :: "errdesc option list \<Rightarrow> string option" where
  "first_error_name [] = None"
| "first_error_name (None # es) = first_error_name es"
| "first_error_name (Some d # es) = Some (err_name d)"

text \<open>\<^verbatim>\<open>r is True\<close>: identity with the singleton \<^verbatim>\<open>True\<close>, so \<open>1\<close> and \<open>-2\<close> are not.\<close>

definition is_True :: "pyval \<Rightarrow> bool" where
  "is_True r = (r = PBool True)"

definition evaluate_single ::
  "'s interp \<Rightarrow> bool \<Rightarrow> (string \<times> pyval) list \<Rightarrow> 's world \<Rightarrow> result outcome \<times> 's world" where
  "evaluate_single I sig g w =
     (let tid = dict_get g ''task_id'' (dict_get g ''id'' (PStr ''unknown'')) in
      case get_code I g of
        Inl e \<Rightarrow> (Raise e, w)
      | Inr code \<Rightarrow>
          (let io = get_io I g;
               sv = check_syntax_valid I code
           in case run_test I sig io code w of
                (Hang, w') \<Rightarrow> (Hang, w')
              | (Raise e, w') \<Rightarrow>
                  (if exn_is_Exception e
                   then (Return \<lparr>task_id = tid, passed = False, syntax_valid = sv,
                                 error = [Some (ErrD ''EvaluationError'' (exn_str e))],
                                 error_name = Some ''EvaluationError'',
                                 num_tests = 0, num_passed = 0\<rparr>, w')
                   else (Raise e, w'))
              | (Return (rs, es), w') \<Rightarrow>
                  (let ok = list_all is_True rs
                   in (Return \<lparr>task_id = tid, passed = ok, syntax_valid = sv,
                               error = es,
                               error_name = (if \<not> ok then first_error_name es else None),
                               num_tests = length rs,
                               num_passed = length (filter is_True rs)\<rparr>, w'))))"






section \<open>Properties of interpreters used as hypotheses\<close>

text \<open>
  An outcome the handlers \<^verbatim>\<open>except Exception\<close> can contain: a normal return, or an
  exception that is an instance of \<^verbatim>\<open>Exception\<close>.
\<close>

definition containable :: "'a outcome \<Rightarrow> bool" where
  "containable r = (case r of Return _ \<Rightarrow> True | Raise e \<Rightarrow> exn_is_Exception e | Hang \<Rightarrow> False)"

definition contained :: "'s interp \<Rightarrow> bool" where
  "contained I =
     ((\<forall>code m w. containable (fst (exec_code I code m w))) \<and>
      (\<forall>m n w. containable (fst (getattr_mod I m n w))) \<and>
      (\<forall>f args w. containable (fst (call_fn I f args w))) \<and>
      (\<forall>a b w. containable (fst (eq_obj I a b w))) \<and>
      (\<forall>v w. containable (fst (bool_obj I v w))) \<and>
      (\<forall>v w. containable (fst (str_obj I v w))) \<and>
      (\<forall>v e. str_builtin I v = Inl e \<longrightarrow> exn_is_Exception e))"





section \<open>Example candidates\<close>

text \<open>
  A small interpreter for a handful of candidate sources, used to run the harness on
  concrete inputs. The candidate state maps a module handle to the functions the
  module defines (name and function handle), and the handle of an opaque object to
  what the object holds.
\<close>

record modules =
  funs :: "nat \<Rightarrow> (string \<times> nat) list"
  objs :: "nat \<Rightarrow> pyval option"

definition nl :: string where
  "nl = [CHR 0x0A]"

definition src_add :: pyval where
  "src_add = PStr (''def add(a, b):'' @ nl @ ''    return a + b'' @ nl)"

definition src_sub :: pyval where
  "src_sub = PStr (''def add(a, b):'' @ nl @ ''    return a - b'' @ nl)"

definition src_print5 :: pyval where
  "src_print5 = PStr (''print(5)'' @ nl)"

definition src_syntax :: pyval where
  "src_syntax = PStr (''def add(a, b) return a + b'' @ nl)"

definition src_exit :: pyval where
  "src_exit = PStr (''import sys'' @ nl @ ''sys.exit(0)'' @ nl)"

definition src_fexit :: pyval where
  "src_fexit = PStr (''import sys'' @ nl @ ''def f(x):'' @ nl @ ''    sys.exit(0)'' @ nl)"

definition src_big :: pyval where
  "src_big = PStr (''def f(n):'' @ nl @ ''    return 10 ** 5000'' @ nl)"

definition src_pass :: pyval where
  "src_pass = PStr (''pass'' @ nl)"

text \<open>
  A candidate whose \<^verbatim>\<open>add\<close> returns an instance of a class of its own; the class
  compares by content and answers with \<open>1\<close> or \<open>0\<close>.
\<close>

definition src_box :: pyval where
  "src_box = PStr (
     ''class Box:'' @ nl @
     ''    def __init__(self, x):'' @ nl @
     ''        self.x = x'' @ nl @
     ''    def __eq__(self, other):'' @ nl @
     ''        return 1 if self.x == other else 0'' @ nl @
     ''def add(a, b):'' @ nl @
     ''    return Box(a + b)'' @ nl)"

text \<open>A candidate whose \<^verbatim>\<open>add\<close> returns a \<^verbatim>\<open>numpy\<close> array.\<close>

definition src_np :: pyval where
  "src_np = PStr (
     ''import numpy as np'' @ nl @
     ''def add(a, b):'' @ nl @
     ''    return np.array([a, b])'' @ nl)"

text \<open>Function handles of the example candidates.\<close>

definition fn_add :: nat where "fn_add = 100"
definition fn_sub :: nat where "fn_sub = 101"
definition fn_fexit :: nat where "fn_fexit = 102"
definition fn_big :: nat where "fn_big = 103"
definition fn_box :: nat where "fn_box = 104"
definition fn_np :: nat where "fn_np = 105"

definition huge_int :: int where
  "huge_int = 10 ^ 5000"

text \<open>
  CPython refuses to convert an integer of more than 4300 digits to a string
  (\<^verbatim>\<open>sys.int_info.default_max_str_digits\<close>).
\<close>

definition int_str_limit :: int where
  "int_str_limit = 10 ^ 4300"

definition SyntaxError :: exn where
  "SyntaxError = Exn ''SyntaxError'' ''invalid syntax (<string>, line 1)'' True"

definition SystemExit :: exn where
  "SystemExit = Exn ''SystemExit'' ''0'' False"

definition ValueError_digits :: exn where
  "ValueError_digits =
     Exn ''ValueError''
       (''Exceeds the limit (4300 digits) for integer string conversion; '' @
        ''use sys.set_int_max_str_digits() to increase the limit'') True"

text \<open>Raised by the truth test of a \<^verbatim>\<open>numpy\<close> array with more than one element.\<close>

definition ValueError_ambiguous :: exn where
  "ValueError_ambiguous =
     Exn ''ValueError''
       (''The truth value of an array with more than one element is ambiguous. '' @
        ''Use a.any() or a.all()'') True"

definition JSONDecodeError :: exn where
  "JSONDecodeError = Exn ''JSONDecodeError'' ''Expecting value: line 1 column 1 (char 0)'' True"

definition dec_of_int :: "int \<Rightarrow> string" where
  "dec_of_int i = (if i < 0 then ''-'' @ dec_of_nat (nat (- i)) else dec_of_nat (nat i))"

fun commas :: "string list \<Rightarrow> string" where
  "commas [] = []"
| "commas [s] = s"
| "commas (s # t # ts) = s @ '', '' @ commas (t # ts)"

text \<open>
  \<^verbatim>\<open>repr\<close> of a value without the digit limit; strings are assumed free of quotes,
  backslashes and control characters, as they are in the examples.
\<close>

fun py_repr :: "pyval \<Rightarrow> string" where
  "py_repr PNone = ''None''"
| "py_repr (PBool b) = (if b then ''True'' else ''False'')"
| "py_repr (PInt i) = dec_of_int i"
| "py_repr (PStr s) = py_quote s"
| "py_repr (PList xs) = ''['' @ commas (map py_repr xs) @ '']''"
| "py_repr (PDict d) =
     ''{'' @ commas (map (\<lambda>kv. py_quote (fst kv) @ '': '' @ py_repr (snd kv)) d) @ ''}''"
| "py_repr (PObj c h) = ''<'' @ c @ '' object at '' @ dec_of_nat h @ ''>''"

text \<open>The decoded test specifications of the examples, by their JSON text.\<close>

definition spec_add :: string where
  \<open>spec_add = ''{"fn_name": "add", "inputs": [[1, 2]], "outputs": [3]}''\<close>

definition spec_add2 :: string where
  \<open>spec_add2 = ''{"fn_name": "add", "inputs": [[1, 2], [2, 2]], "outputs": [3]}''\<close>

definition spec_pairs :: string where
  \<open>spec_pairs = ''{"fn_name": "add", "inputs": [[1, 2], [2, 2]], "outputs": [[1, 2]]}''\<close>

definition spec_pair :: string where
  \<open>spec_pair = ''{"fn_name": "add", "inputs": [[1, 2]], "outputs": [[1, 2]]}''\<close>

definition spec_f :: string where
  \<open>spec_f = ''{"fn_name": "f", "inputs": [[1]], "outputs": [0]}''\<close>

definition spec_script :: string where
  \<open>spec_script = ''{"inputs": [""], "outputs": ["5"]}''\<close>

definition spec_empty :: string where
  \<open>spec_empty = ''{"inputs": [], "outputs": []}''\<close>

definition json_table :: "(string \<times> pyval) list" where
  "json_table =
     [(spec_add, PDict [(''fn_name'', PStr ''add''),
                        (''inputs'', PList [PList [PInt 1, PInt 2]]),
                        (''outputs'', PList [PInt 3])]),
      (spec_add2, PDict [(''fn_name'', PStr ''add''),
                         (''inputs'', PList [PList [PInt 1, PInt 2], PList [PInt 2, PInt 2]]),
                         (''outputs'', PList [PInt 3])]),
      (spec_pairs, PDict [(''fn_name'', PStr ''add''),
                          (''inputs'', PList [PList [PInt 1, PInt 2], PList [PInt 2, PInt 2]]),
                          (''outputs'', PList [PList [PInt 1, PInt 2]])]),
      (spec_pair, PDict [(''fn_name'', PStr ''add''),
                         (''inputs'', PList [PList [PInt 1, PInt 2]]),
                         (''outputs'', PList [PList [PInt 1, PInt 2]])]),
      (spec_f, PDict [(''fn_name'', PStr ''f''),
                      (''inputs'', PList [PList [PInt 1]]),
                      (''outputs'', PList [PInt 0])]),
      (spec_script, PDict [(''inputs'', PList [PStr '''']), (''outputs'', PList [PStr ''5''])]),
      (spec_empty, PDict [(''inputs'', PList []), (''outputs'', PList [])])]"

definition define_fn :: "nat \<Rightarrow> string \<Rightarrow> nat \<Rightarrow> modules world \<Rightarrow> modules world" where
  "define_fn m name f w =
     w\<lparr>cand := (cand w)\<lparr>funs := (funs (cand w))(m := (name, f) # funs (cand w) m)\<rparr>\<rparr>"

text \<open>A new object with the next unused handle, holding \<open>x\<close>.\<close>

definition new_obj :: "pyval \<Rightarrow> modules world \<Rightarrow> modules world" where
  "new_obj x w =
     w\<lparr>next_obj := Suc (next_obj w),
        cand := (cand w)\<lparr>objs := (objs (cand w))(next_obj w \<mapsto> x)\<rparr>\<rparr>"

text \<open>
  \<^verbatim>\<open>a == xs\<close> for an array \<open>a\<close> and a list of the same length: the array of the
  elementwise comparisons.
\<close>

fun elementwise_eq :: "pyval \<Rightarrow> pyval \<Rightarrow> pyval option" where
  "elementwise_eq (PList xs) (PList ys) =
     (if length xs = length ys then Some (PList (map2 (\<lambda>x y. PBool (py_eq x y)) xs ys))
      else None)"
| "elementwise_eq _ _ = None"

definition print_line :: "string \<Rightarrow> modules world \<Rightarrow> modules world" where
  "print_line s w =
     (case buffers w (sys_stdout w) of
        None \<Rightarrow> w
      | Some text \<Rightarrow> w\<lparr>buffers := (buffers w)(sys_stdout w \<mapsto> text @ s @ nl)\<rparr>)"

text \<open>
  \<open>py_with exits limit objects\<close>: with \<open>exits\<close> the two sources that call
  \<^verbatim>\<open>sys.exit\<close> are among the candidates; with \<open>limit\<close> the integer digit limit of
  \<^verbatim>\<open>str\<close> is in force (it is off after \<^verbatim>\<open>sys.set_int_max_str_digits(0)\<close>); with
  \<open>objects\<close> the two sources whose function returns an opaque object are among the
  candidates. Without them no opaque object is ever created, and the three operations
  on objects are the defaults of \<^verbatim>\<open>object\<close>.
\<close>

definition py_with :: "bool \<Rightarrow> bool \<Rightarrow> bool \<Rightarrow> modules interp" where
  "py_with exits limit objects =
     \<lparr>json_loads = (\<lambda>s. case map_of json_table s of Some v \<Rightarrow> Inr v | None \<Rightarrow> Inl JSONDecodeError),
      json_dumps = py_repr,
      ast_parse = (\<lambda>code. case code of PStr s \<Rightarrow> code \<noteq> src_syntax | _ \<Rightarrow> False),
      str_builtin =
        (\<lambda>v. case v of
           PInt i \<Rightarrow>
             (if limit \<and> int_str_limit \<le> \<bar>i\<bar> then Inl ValueError_digits
              else Inr (dec_of_int i))
         | _ \<Rightarrow> Inr (py_repr v)),
      format_exc =
        (\<lambda>e. ''Traceback (most recent call last):'' @ nl @ exn_name e @ '': '' @ exn_str e @ nl),
      exec_code =
        (\<lambda>code m w.
           if code = src_add then (Return (), define_fn m ''add'' fn_add w)
           else if code = src_sub then (Return (), define_fn m ''add'' fn_sub w)
           else if code = src_print5 then (Return (), print_line ''5'' w)
           else if exits \<and> code = src_exit then (Raise SystemExit, w)
           else if exits \<and> code = src_fexit then (Return (), define_fn m ''f'' fn_fexit w)
           else if code = src_big then (Return (), define_fn m ''f'' fn_big w)
           else if objects \<and> code = src_box then (Return (), define_fn m ''add'' fn_box w)
           else if objects \<and> code = src_np then (Return (), define_fn m ''add'' fn_np w)
           else if code = src_pass then (Return (), w)
           else (Raise SyntaxError, w)),
      getattr_mod =
        (\<lambda>m name w.
           case name of
             PStr n \<Rightarrow>
               (case map_of (funs (cand w) m) n of
                  Some f \<Rightarrow> (Return f, w)
                | None \<Rightarrow>
                    (Raise (Exn ''AttributeError''
                       (''module '' @ py_quote ''tmp'' @ '' has no attribute '' @ py_quote n) True), w))
           | _ \<Rightarrow> (Raise (Exn ''TypeError'' ''attribute name must be string'' True), w)),
      call_fn =
        (\<lambda>f args w.
           if exits \<and> f = fn_fexit then (Raise SystemExit, w)
           else if f = fn_big then (Return (PInt huge_int), w)
           else if objects \<and> f = fn_np then
             (case args of
                [a, b] \<Rightarrow> (Return (PObj ''ndarray'' (next_obj w)), new_obj (PList [a, b]) w)
              | _ \<Rightarrow> (Raise (Exn ''TypeError'' ''unsupported operand or argument count'' True), w))
           else (case args of
                   [PInt a, PInt b] \<Rightarrow>
                     (if objects \<and> f = fn_box
                      then (Return (PObj ''Box'' (next_obj w)), new_obj (PInt (a + b)) w)
                      else (Return (PInt (if f = fn_add then a + b else a - b)), w))
                 | _ \<Rightarrow> (Raise (Exn ''TypeError'' ''unsupported operand or argument count'' True), w))),
      eq_obj =
        (\<lambda>a b w.
           if objects then
             (case a of
                PObj c h \<Rightarrow>
                  (if c = ''Box'' then
                     (case objs (cand w) h of
                        Some x \<Rightarrow> (Return (PInt (if py_eq x b then 1 else 0)), w)
                      | None \<Rightarrow> (Return (PBool (py_eq a b)), w))
                   else if c = ''ndarray'' then
                     (case objs (cand w) h of
                        Some x \<Rightarrow>
                          (case elementwise_eq x b of
                             Some y \<Rightarrow> (Return (PObj ''ndarray'' (next_obj w)), new_obj y w)
                           | None \<Rightarrow> (Return (PBool False), w))
                      | None \<Rightarrow> (Return (PBool (py_eq a b)), w))
                   else (Return (PBool (py_eq a b)), w))
              | _ \<Rightarrow> (Return (PBool (py_eq a b)), w))
           else (Return (PBool (py_eq a b)), w)),
      bool_obj =
        (\<lambda>v w.
           if objects then
             (case v of
                PObj c h \<Rightarrow>
                  (if c = ''ndarray'' then
                     (case objs (cand w) h of
                        Some (PList [x]) \<Rightarrow> (Return (py_truthy x), w)
                      | _ \<Rightarrow> (Raise ValueError_ambiguous, w))
                   else (Return True, w))
              | _ \<Rightarrow> (Return (py_truthy v), w))
           else (Return (py_truthy v), w)),
      str_obj = (\<lambda>v w. (Return (py_repr v), w))\<rparr>"

definition py :: "modules interp" where
  "py = py_with True True True"

definition py_plain :: "modules interp" where
  "py_plain = py_with False False False"

definition w0 :: "modules world" where
  "w0 = \<lparr>sys_stdout = 0, buffers = (\<lambda>_. None), alarm = 0, next_obj = 1, trace = [],
         cand = \<lparr>funs = (\<lambda>_. []), objs = (\<lambda>_. None)\<rparr>\<rparr>"

text \<open>Generations as \<^verbatim>\<open>eval.py\<close> reads them.\<close>

definition gen :: "string \<Rightarrow> pyval \<Rightarrow> string \<Rightarrow> (string \<times> pyval) list" where
  "gen tid code spec =
     [(''task_id'', PStr tid), (''deal_response'', code), (''input_output'', PStr spec)]"

text \<open>The frame right after a successful or failed load of an example source.\<close>

definition loaded :: "pyval \<Rightarrow> modules frame" where
  "loaded src =
     \<lparr>res = [], err = [], world = snd (create_module_from_string py ''tmp'' src w0)\<rparr>"

definition loaded_with :: "modules interp \<Rightarrow> pyval \<Rightarrow> modules frame" where
  "loaded_with I src =
     \<lparr>res = [], err = [], world = snd (create_module_from_string I ''tmp'' src w0)\<rparr>"



section \<open>Basic facts\<close>

declare dec_of_nat.simps [simp del]

lemma arm_fields [simp]:
  "res (arm sig st) = res st"
  "err (arm sig st) = err st"
  "sys_stdout (world (arm sig st)) = sys_stdout (world st)"
  by (simp_all add: arm_def signal_alarm_def)

lemma disarm_fields [simp]:
  "res (disarm sig st) = res st"
  "err (disarm sig st) = err st"
  "sys_stdout (world (disarm sig st)) = sys_stdout (world st)"
  by (simp_all add: disarm_def signal_alarm_def)

lemma small_below_int_str_limit: "\<bar>i\<bar> < 10 \<Longrightarrow> \<not> int_str_limit \<le> \<bar>i\<bar>"
proof -
  have "(10::int) ^ 1 \<le> 10 ^ 4300"
    by (rule power_increasing) simp_all
  then have "10 \<le> int_str_limit"
    by (simp add: int_str_limit_def del: power_numeral)
  then show "\<bar>i\<bar> < 10 \<Longrightarrow> \<not> int_str_limit \<le> \<bar>i\<bar>"
    by linarith
qed

lemma huge_int_beyond_limit: "int_str_limit \<le> \<bar>huge_int\<bar>"
proof -
  have "(10::int) ^ 4300 \<le> 10 ^ 5000"
    by (rule power_increasing) simp_all
  moreover have "(0::int) < 10 ^ 5000"
    by (rule zero_less_power) simp
  ultimately show ?thesis
    unfolding int_str_limit_def huge_int_def by linarith
qed

lemma huge_int_not_0: "huge_int \<noteq> 0"
  using huge_int_beyond_limit small_below_int_str_limit [of 0] by auto

lemmas ex_defs =
  py_def py_plain_def py_with_def w0_def src_add_def src_sub_def src_print5_def src_syntax_def src_exit_def
  src_fexit_def src_big_def src_pass_def src_box_def src_np_def nl_def fn_add_def fn_sub_def
  fn_fexit_def fn_big_def fn_box_def fn_np_def
  define_fn_def new_obj_def print_line_def loaded_def loaded_with_def
  create_module_from_string_def do_exec_def
  do_getattr_def do_call_def do_eq_def do_bool_def do_str_def
  arm_def disarm_def signal_alarm_def TIMEOUT_def
  redirect_stdout_def restore_stdout_def run_script_and_capture_output_def

lemmas run_defs =
  run_test_def run_case_def case_body_def case_handler_def load_failure_def py_get_def
  py_iter_def py_index_def py_str_def json_table_def spec_add_def spec_add2_def spec_f_def
  spec_pair_def spec_pairs_def
  spec_script_def spec_empty_def IndexError_def SystemExit_def SyntaxError_def
  ValueError_digits_def ValueError_ambiguous_def JSONDecodeError_def py_quote_def
  dec_of_int_def py_strip_def
  py_isspace_def dec_of_nat.simps


section \<open>Function mode\<close>




lemma function_case_shape:
  assumes "py_truthy fn_name"
  shows "case_body I sig fn_name m test outs i inp st =
     (case do_getattr I m fn_name (world (arm sig st)) of
        (Hang, w) \<Rightarrow> (Hang, st\<lparr>world := w\<rparr>)
      | (Raise e, w) \<Rightarrow> (Raise e, st\<lparr>world := w\<rparr>)
      | (Return f, w) \<Rightarrow>
          (case do_call I f (case inp of PList args \<Rightarrow> args | _ \<Rightarrow> [inp]) w of
             (Hang, w') \<Rightarrow> (Hang, st\<lparr>world := w'\<rparr>)
           | (Raise e, w') \<Rightarrow> (Raise e, st\<lparr>world := w'\<rparr>)
           | (Return got, w') \<Rightarrow>
               (case py_index outs i of
                  Inl e \<Rightarrow> (Raise e, st\<lparr>world := w'\<rparr>)
                | Inr expected \<Rightarrow>
                    (case do_eq I got expected w' of
                       (Hang, w2) \<Rightarrow> (Hang, st\<lparr>world := w2\<rparr>)
                     | (Raise e, w2) \<Rightarrow> (Raise e, st\<lparr>world := w2\<rparr>)
                     | (Return ok, w2) \<Rightarrow>
                         (case do_bool I ok w2 of
                            (Hang, w3) \<Rightarrow> (Hang, st\<lparr>res := res st @ [ok], world := w3\<rparr>)
                          | (Raise e, w3) \<Rightarrow> (Raise e, st\<lparr>res := res st @ [ok], world := w3\<rparr>)
                          | (Return truthy, w3) \<Rightarrow>
                              (if truthy
                               then (Return (),
                                     disarm sig
                                       (st\<lparr>res := res st @ [ok], err := err st @ [None],
                                           world := w3\<rparr>))
                               else (case do_str I got w3 of
                                       (Hang, w4) \<Rightarrow>
                                         (Hang, st\<lparr>res := res st @ [ok], world := w4\<rparr>)
                                     | (Raise e, w4) \<Rightarrow>
                                         (Raise e, st\<lparr>res := res st @ [ok], world := w4\<rparr>)
                                     | (Return s, w4) \<Rightarrow>
                                         (Return (),
                                          disarm sig
                                            (st\<lparr>res := res st @ [ok],
                                                err := err st @ [Some (ErrD ''WrongOutput'' s)],
                                                world := w4\<rparr>)))))))))"
  using assms unfolding case_body_def
  by (cases sig)
    (simp_all add: Let_def arm_def disarm_def split: prod.splits outcome.splits sum.splits)




section \<open>Script mode and the standard-output stream\<close>




lemma script_case_shape:
  assumes "\<not> py_truthy fn_name"
  shows "case_body I sig fn_name m test outs i inp st =
     (case run_script_and_capture_output I test m (world (arm sig st)) of
        (Hang, w) \<Rightarrow> (Hang, st\<lparr>world := w\<rparr>)
      | (Raise e, w) \<Rightarrow> (Raise e, st\<lparr>world := w\<rparr>)
      | (Return output, w) \<Rightarrow>
          (case py_index outs i of
             Inl e \<Rightarrow> (Raise e, st\<lparr>world := w\<rparr>)
           | Inr expected \<Rightarrow>
               (case py_str I expected of
                  Inl e \<Rightarrow> (Raise e, st\<lparr>world := w\<rparr>)
                | Inr s \<Rightarrow>
                    (Return (),
                     disarm sig
                       (st\<lparr>res := res st @ [PBool (py_strip output = py_strip s)],
                          err := err st @
                            [if py_strip output = py_strip s then None
                             else Some (ErrD ''WrongStdout'' output)],
                          world := w\<rparr>)))))"
  using assms unfolding case_body_def
  by (cases sig)
    (simp_all add: Let_def arm_def disarm_def split: prod.splits outcome.splits sum.splits)










section \<open>Containment of exceptions in the loop\<close>

lemma do_exec_containable: "contained I \<Longrightarrow> containable (fst (do_exec I c m w))"
  by (simp add: contained_def do_exec_def split: prod.splits)
    (metis fst_conv)

lemma do_getattr_containable: "contained I \<Longrightarrow> containable (fst (do_getattr I m n w))"
  by (simp add: contained_def do_getattr_def split: prod.splits)
    (metis fst_conv)

lemma do_call_containable: "contained I \<Longrightarrow> containable (fst (do_call I f a w))"
  by (simp add: contained_def do_call_def split: prod.splits)
    (metis fst_conv)

lemma py_index_raises_Exception: "py_index outs i = Inl e \<Longrightarrow> exn_is_Exception e"
  by (auto simp: py_index_def IndexError_def KeyError_def TypeError_not_subscriptable_def
        split: pyval.splits if_splits)

lemma py_str_raises_Exception: "contained I \<Longrightarrow> py_str I v = Inl e \<Longrightarrow> exn_is_Exception e"
  by (auto simp: py_str_def contained_def split: pyval.splits)

lemma do_eq_containable: "contained I \<Longrightarrow> containable (fst (do_eq I a b w))"
proof (cases "plain a \<and> plain b")
  case True
  then show ?thesis
    by (simp add: do_eq_def containable_def)
next
  case False
  assume "contained I"
  then have "containable (fst (eq_obj I a b w))"
    by (simp add: contained_def)
  then show ?thesis
    using False by (cases "eq_obj I a b w") (auto simp: do_eq_def)
qed

lemma do_bool_containable: "contained I \<Longrightarrow> containable (fst (do_bool I v w))"
proof -
  assume "contained I"
  then have "containable (fst (bool_obj I v w))"
    by (simp add: contained_def)
  then show ?thesis
    by (cases "bool_obj I v w"; cases v) (auto simp: do_bool_def containable_def)
qed

lemma do_str_containable: "contained I \<Longrightarrow> containable (fst (do_str I v w))"
proof (cases "plain v")
  case True
  assume "contained I"
  then show ?thesis
    using True py_str_raises_Exception [of I v]
    by (cases "py_str I v") (simp_all add: do_str_def containable_def)
next
  case False
  assume "contained I"
  then have "containable (fst (str_obj I v w))"
    by (simp add: contained_def)
  then show ?thesis
    using False by (cases "str_obj I v w") (auto simp: do_str_def)
qed

lemma containable_cases:
  assumes "containable (fst p)"
  shows "p \<noteq> (Hang, w)" "p = (Raise e, w) \<Longrightarrow> exn_is_Exception e"
  using assms by (auto simp: containable_def)

lemma run_script_containable:
  "contained I \<Longrightarrow> containable (fst (run_script_and_capture_output I c m w))"
  using do_exec_containable [of I c m "redirect_stdout w"]
  by (auto simp: run_script_and_capture_output_def containable_def getvalue_error_def Let_def
        split: prod.splits outcome.splits option.splits)

lemma case_body_containable:
  assumes "contained I"
  shows "containable (fst (case_body I sig fn_name m test outs i inp st))"
proof (cases "py_truthy fn_name")
  case False
  show ?thesis
    using run_script_containable [OF assms, of test m "world (arm sig st)"]
      py_index_raises_Exception [of outs i] py_str_raises_Exception [OF assms]
    unfolding script_case_shape [OF False]
    by (auto simp: containable_def split: prod.splits outcome.splits sum.splits)
next
  case True
  note g = containable_cases [OF do_getattr_containable [OF assms]]
  note c = containable_cases [OF do_call_containable [OF assms]]
  note q = containable_cases [OF do_eq_containable [OF assms]]
  note b = containable_cases [OF do_bool_containable [OF assms]]
  note s = containable_cases [OF do_str_containable [OF assms]]
  show ?thesis
    unfolding function_case_shape [OF True]
    by (auto simp: containable_def g(1) c(1) q(1) b(1) s(1)
          dest: g(2) c(2) q(2) b(2) s(2) py_index_raises_Exception
          split: prod.splits outcome.splits sum.splits)
qed

lemma contained_case_returns:
  assumes "contained I"
  shows "fst (run_case I sig fn_name m test outs i inp st) = Return ()"
  using case_body_containable [OF assms, of sig fn_name m test outs i inp st]
  unfolding run_case_def
  by (auto simp: containable_def split: prod.splits outcome.splits)

lemma contained_loop_returns:
  assumes "contained I"
  shows "fst (run_cases I sig fn_name m test outs i ins st) = Return ()"
proof (induction ins arbitrary: i st)
  case Nil
  show ?case by simp
next
  case (Cons inp ins)
  obtain st' where "run_case I sig fn_name m test outs i inp st = (Return (), st')"
    using contained_case_returns [OF assms, of sig fn_name m test outs i inp st]
    by (cases "run_case I sig fn_name m test outs i inp st") simp
  then show ?case
    using Cons.IH [of "Suc i" st'] by simp
qed

lemma do_bool_Raise: "do_bool I v w = (Raise e, w') \<Longrightarrow> fst (bool_obj I v w) = Raise e"
  by (cases "bool_obj I v w") (auto simp: do_bool_def split: pyval.splits)

lemma do_str_Raise:
  "do_str I v w = (Raise e, w') \<Longrightarrow> py_str I v = Inl e \<or> fst (str_obj I v w) = Raise e"
  by (cases "str_obj I v w") (auto simp: do_str_def split: if_splits sum.splits)

text \<open>
  What the lists hold when the \<^verbatim>\<open>try\<close> block is left by an exception: nothing was
  appended to \<open>err\<close>; \<open>res\<close> has at most the comparison result, and has it only when the
  exception came from the truth test of that result or from \<^verbatim>\<open>str(got)\<close>.
\<close>

lemma case_body_Raise_lists:
  assumes "case_body I sig fn_name m test outs i inp st = (Raise e, st1)"
  shows "err st1 = err st
         \<and> (res st1 = res st
            \<or> (\<exists>ok. res st1 = res st @ [ok]
                  \<and> ((\<exists>v. py_str I v = Inl e) \<or> (\<exists>v w. fst (bool_obj I v w) = Raise e)
                      \<or> (\<exists>v w. fst (str_obj I v w) = Raise e))))"
proof (cases "py_truthy fn_name")
  case True
  show ?thesis
    using assms unfolding function_case_shape [OF True]
    by (auto split: prod.splits outcome.splits sum.splits if_splits
          dest: do_bool_Raise do_str_Raise)
next
  case False
  show ?thesis
    using assms unfolding script_case_shape [OF False]
    by (auto split: prod.splits outcome.splits sum.splits if_splits)
qed

lemma case_body_raise_lists:
  assumes "case_body I sig fn_name m test outs i inp st = (Raise e, st1)"
    and "\<forall>v. py_str I v \<noteq> Inl e"
    and "\<forall>v w. fst (bool_obj I v w) \<noteq> Raise e"
    and "\<forall>v w. fst (str_obj I v w) \<noteq> Raise e"
  shows "res st1 = res st \<and> err st1 = err st"
  using case_body_Raise_lists [OF assms(1)] assms(2,3,4) by blast

text \<open>
  C5, as the code has it. An exception raised while a case is evaluated is handled
  by \<^verbatim>\<open>except Exception\<close> exactly when it is an instance of \<^verbatim>\<open>Exception\<close> (the
  class \<^verbatim>\<open>Timeout\<close> is one): then a false verdict and an error with the exception's
  type name and the formatted traceback are appended, and the loop goes on with the
  remaining cases; when the exception is raised neither by \<^verbatim>\<open>str\<close> nor by the truth
  test of an object, nothing else was appended for the case. An exception that is not
  an instance of \<^verbatim>\<open>Exception\<close> leaves the loop. With an interpreter whose operations
  only return or raise instances of \<^verbatim>\<open>Exception\<close>, the loop always runs to its end.
\<close>

theorem case_exception_contained:
  assumes "case_body I sig fn_name m test outs i inp st = (Raise e, st1)"
  shows "(exn_is_Exception e \<longrightarrow>
            run_case I sig fn_name m test outs i inp st = (Return (), case_handler I sig e st1)
            \<and> res (case_handler I sig e st1) = res st1 @ [PBool False]
            \<and> err (case_handler I sig e st1) =
                err st1 @ [Some (ErrD (exn_name e) (format_exc I e))]
            \<and> run_cases I sig fn_name m test outs i (inp # ins) st =
                run_cases I sig fn_name m test outs (Suc i) ins (case_handler I sig e st1))
         \<and> (\<not> exn_is_Exception e \<longrightarrow>
              run_cases I sig fn_name m test outs i (inp # ins) st = (Raise e, st1))
         \<and> ((\<forall>v. py_str I v \<noteq> Inl e) \<and> (\<forall>v w. fst (bool_obj I v w) \<noteq> Raise e)
              \<and> (\<forall>v w. fst (str_obj I v w) \<noteq> Raise e) \<longrightarrow>
              res st1 = res st \<and> err st1 = err st)
         \<and> (contained I \<longrightarrow>
              fst (run_cases I sig fn_name m test outs i (inp # ins) st) = Return ())"
  using assms case_body_raise_lists [OF assms]
    contained_loop_returns [of I sig fn_name m test outs i "inp # ins" st]
  by (simp add: run_case_def case_handler_def Let_def)

lemma py_plain_contained: "contained py_plain"
  unfolding contained_def containable_def py_plain_def py_with_def
  by (simp add: SyntaxError_def split: pyval.splits list.splits option.splits)




theorem case_exception_contained_witness:
  "fst (run_case py_plain True (PStr ''add'') 1 src_pass (PList [PInt 3]) 0
          (PList [PInt 1, PInt 2]) (loaded_with py_plain src_pass)) = Return ()
   \<and> res (snd (run_case py_plain True (PStr ''add'') 1 src_pass (PList [PInt 3]) 0
          (PList [PInt 1, PInt 2]) (loaded_with py_plain src_pass))) = [PBool False]
   \<and> map (map_option err_name)
        (err (snd (run_case py_plain True (PStr ''add'') 1 src_pass (PList [PInt 3]) 0
          (PList [PInt 1, PInt 2]) (loaded_with py_plain src_pass)))) = [Some ''AttributeError'']
   \<and> fst (run_cases py_plain True (PStr ''add'') 1 src_pass (PList [PInt 3]) 0
          [PList [PInt 1, PInt 2], PList [PInt 2, PInt 2]] (loaded_with py_plain src_pass))
        = Return ()
   \<and> fst (run_cases py True (PStr ''f'') 1 src_fexit (PList [PInt 0]) 0 [PList [PInt 1]]
          (loaded src_fexit)) = Raise SystemExit"
proof -
  define e where
    "e = Exn ''AttributeError''
           (''module '' @ py_quote ''tmp'' @ '' has no attribute '' @ py_quote ''add'') True"
  have h: "case_body py_plain True (PStr ''add'') 1 src_pass (PList [PInt 3]) 0
             (PList [PInt 1, PInt 2]) (loaded_with py_plain src_pass)
           = (Raise e,
              snd (case_body py_plain True (PStr ''add'') 1 src_pass (PList [PInt 3]) 0
                     (PList [PInt 1, PInt 2]) (loaded_with py_plain src_pass)))"
    by (simp add: run_defs ex_defs e_def prod_eq_iff)
  have h2: "case_body py True (PStr ''f'') 1 src_fexit (PList [PInt 0]) 0 (PList [PInt 1])
              (loaded src_fexit)
            = (Raise SystemExit,
               snd (case_body py True (PStr ''f'') 1 src_fexit (PList [PInt 0]) 0 (PList [PInt 1])
                      (loaded src_fexit)))"
    by (simp add: run_defs ex_defs prod_eq_iff)
  have ex: "exn_is_Exception e" "exn_name e = ''AttributeError''"
    "\<not> exn_is_Exception SystemExit"
    by (simp_all add: e_def SystemExit_def)
  have nostr: "(\<forall>v. py_str py_plain v \<noteq> Inl e)
      \<and> (\<forall>v w. fst (bool_obj py_plain v w) \<noteq> Raise e)
      \<and> (\<forall>v w. fst (str_obj py_plain v w) \<noteq> Raise e)"
    by (simp add: py_str_def py_plain_def py_with_def split: pyval.splits)
  have st0: "res (loaded_with py_plain src_pass) = []" "err (loaded_with py_plain src_pass) = []"
    by (simp_all add: loaded_with_def)
  note T = case_exception_contained [OF h, of "[PList [PInt 2, PInt 2]]"]
  note T2 = case_exception_contained [OF h2, of "[]"]
  have A: "run_case py_plain True (PStr ''add'') 1 src_pass (PList [PInt 3]) 0
             (PList [PInt 1, PInt 2]) (loaded_with py_plain src_pass)
           = (Return (), case_handler py_plain True e
                (snd (case_body py_plain True (PStr ''add'') 1 src_pass (PList [PInt 3]) 0
                       (PList [PInt 1, PInt 2]) (loaded_with py_plain src_pass))))"
    using T ex(1) by blast
  have L: "res (snd (case_body py_plain True (PStr ''add'') 1 src_pass (PList [PInt 3]) 0
                       (PList [PInt 1, PInt 2]) (loaded_with py_plain src_pass))) = []
           \<and> err (snd (case_body py_plain True (PStr ''add'') 1 src_pass (PList [PInt 3]) 0
                       (PList [PInt 1, PInt 2]) (loaded_with py_plain src_pass))) = []"
    using T nostr st0 by simp
  have B: "res (case_handler py_plain True e
                (snd (case_body py_plain True (PStr ''add'') 1 src_pass (PList [PInt 3]) 0
                       (PList [PInt 1, PInt 2]) (loaded_with py_plain src_pass)))) = [PBool False]"
    using T ex(1) L by simp
  have C: "err (case_handler py_plain True e
                (snd (case_body py_plain True (PStr ''add'') 1 src_pass (PList [PInt 3]) 0
                       (PList [PInt 1, PInt 2]) (loaded_with py_plain src_pass))))
             = [Some (ErrD ''AttributeError'' (format_exc py_plain e))]"
    using T ex(1,2) L by simp
  have c1: "fst (run_case py_plain True (PStr ''add'') 1 src_pass (PList [PInt 3]) 0
          (PList [PInt 1, PInt 2]) (loaded_with py_plain src_pass)) = Return ()"
    by (simp only: A fst_conv)
  have c2: "res (snd (run_case py_plain True (PStr ''add'') 1 src_pass (PList [PInt 3]) 0
          (PList [PInt 1, PInt 2]) (loaded_with py_plain src_pass))) = [PBool False]"
    by (simp only: A snd_conv B)
  have c3: "map (map_option err_name)
        (err (snd (run_case py_plain True (PStr ''add'') 1 src_pass (PList [PInt 3]) 0
          (PList [PInt 1, PInt 2]) (loaded_with py_plain src_pass)))) = [Some ''AttributeError'']"
    by (simp only: A snd_conv C) simp
  have c4: "fst (run_cases py_plain True (PStr ''add'') 1 src_pass (PList [PInt 3]) 0
          [PList [PInt 1, PInt 2], PList [PInt 2, PInt 2]] (loaded_with py_plain src_pass))
        = Return ()"
    using T py_plain_contained by blast
  have c5: "fst (run_cases py True (PStr ''f'') 1 src_fexit (PList [PInt 0]) 0 [PList [PInt 1]]
          (loaded src_fexit)) = Raise SystemExit"
    using T2 ex(3) by (metis fst_conv)
  show ?thesis
    using c1 c2 c3 c4 c5 by blast
qed

text \<open>
  C5 as stated fails. The candidate \<^verbatim>\<open>def f(x): sys.exit(0)\<close> loads, and its one case raises
  \<^verbatim>\<open>SystemExit\<close>, which \<^verbatim>\<open>except Exception\<close> does not handle: the exception reaches
  the caller of \<^verbatim>\<open>run_test\<close>.
\<close>

theorem case_exception_escapes:
  "fst (create_module_from_string py ''tmp'' src_fexit w0) = Return 1
   \<and> fst (run_test py True spec_f src_fexit w0) = Raise SystemExit"
  by (simp add: run_defs ex_defs)

section \<open>Load failure\<close>





section \<open>Alignment of verdicts and errors\<close>

text \<open>
  C1, at an input where the code breaks it. The candidate
  \<^verbatim>\<open>def f(n): return 10 ** 5000\<close> loads; its one case returns an integer that differs
  from the expected \<open>0\<close>, so \<^verbatim>\<open>res.append(ok)\<close> appends \<^verbatim>\<open>False\<close>; then \<^verbatim>\<open>str(got)\<close>
  raises \<^verbatim>\<open>ValueError\<close> (more than 4300 digits) inside the statement that would append
  the error, and the handler appends a second \<^verbatim>\<open>False\<close> and the one error. One case
  gives two verdicts and one error, and \<^verbatim>\<open>evaluate_single\<close> counts two tests.
\<close>

theorem run_test_misaligned:
  "fst (run_test py True spec_f src_big w0) =
     Return ([PBool False, PBool False],
             [Some (ErrD ''ValueError'' (format_exc py ValueError_digits))])
   \<and> (\<exists>r. fst (evaluate_single py True (gen ''t1'' src_big spec_f) w0) = Return r
          \<and> num_tests r = 2 \<and> length (error r) = 1)"
proof -
  have a: "fst (run_test py True spec_f src_big w0) =
     Return ([PBool False, PBool False],
             [Some (ErrD ''ValueError'' (format_exc py ValueError_digits))])"
    using huge_int_not_0 huge_int_beyond_limit
    by (simp add: run_defs ex_defs)
  have g: "get_code py (gen ''t1'' src_big spec_f) = Inr src_big"
    "get_io py (gen ''t1'' src_big spec_f) = spec_f"
    by (simp_all add: get_code_def get_io_def gen_def dict_get_def src_big_def)
  have "\<exists>r. fst (evaluate_single py True (gen ''t1'' src_big spec_f) w0) = Return r
          \<and> num_tests r = 2 \<and> length (error r) = 1"
    using a g
    by (cases "run_test py True spec_f src_big w0")
      (simp add: evaluate_single_def Let_def)
  with a show ?thesis
    by simp
qed

section \<open>The derived verdict of a candidate\<close>

lemma list_all_is_True: "list_all is_True rs \<longleftrightarrow> (\<forall>v\<in>set rs. v = PBool True)"
  by (simp add: list_all_iff is_True_def)

lemma run_test_no_cases:
  assumes "json_loads I s = Inr (PDict d)"
    and "py_iter (dict_get d ''inputs'' (PList [])) = Inr []"
    and "create_module_from_string I ''tmp'' code w = (Return m, w1)"
  shows "run_test I sig s code w = (Return ([], []), w1)"
  using assms by (simp add: run_test_def py_get_def dict_get_def)

text \<open>
  C7. When \<^verbatim>\<open>run_test\<close> returns the verdict list \<open>rs\<close>, the record built by
  \<^verbatim>\<open>evaluate_single\<close> has \<open>passed\<close> true iff every verdict is the Boolean \<^verbatim>\<open>True\<close>,
  counts \<open>len(rs)\<close> tests and as passed those that are \<^verbatim>\<open>True\<close>; so an empty list gives
  \<open>passed\<close> with both counts 0, and the load-failure list \<open>[-2]\<close> gives not \<open>passed\<close>.
  A candidate that loads and has an empty case list gets the empty verdict list.
\<close>

theorem passed_iff_all_true:
  "(get_code I g = Inr code \<and> run_test I sig (get_io I g) code w = (Return (rs, es), w') \<longrightarrow>
      (\<exists>r. evaluate_single I sig g w = (Return r, w')
            \<and> (passed r \<longleftrightarrow> (\<forall>v\<in>set rs. v = PBool True))
            \<and> num_tests r = length rs
            \<and> num_passed r = length (filter (\<lambda>v. v = PBool True) rs)
            \<and> (rs = [] \<longrightarrow> passed r \<and> num_tests r = 0 \<and> num_passed r = 0)
            \<and> (rs = [PInt (- 2)] \<longrightarrow> \<not> passed r)))
   \<and> (json_loads I s = Inr (PDict d) \<and> py_iter (dict_get d ''inputs'' (PList [])) = Inr []
        \<and> create_module_from_string I ''tmp'' code w = (Return m, w1) \<longrightarrow>
        run_test I sig s code w = (Return ([], []), w1))"
proof -
  have "\<exists>r. evaluate_single I sig g w = (Return r, w')
            \<and> (passed r \<longleftrightarrow> (\<forall>v\<in>set rs. v = PBool True))
            \<and> num_tests r = length rs
            \<and> num_passed r = length (filter (\<lambda>v. v = PBool True) rs)
            \<and> (rs = [] \<longrightarrow> passed r \<and> num_tests r = 0 \<and> num_passed r = 0)
            \<and> (rs = [PInt (- 2)] \<longrightarrow> \<not> passed r)"
    if "get_code I g = Inr code" "run_test I sig (get_io I g) code w = (Return (rs, es), w')"
  proof -
    have f: "filter is_True rs = filter (\<lambda>v. v = PBool True) rs"
      by (rule filter_cong) (simp_all add: is_True_def)
    show ?thesis
      using that f
      by (auto simp: evaluate_single_def Let_def list_all_is_True)
  qed
  then show ?thesis
    using run_test_no_cases [of I s d code w m w1 sig] by blast
qed

theorem passed_iff_all_true_witness:
  "(\<exists>r. fst (evaluate_single py True (gen ''t1'' src_add spec_add) w0) = Return r
        \<and> passed r \<and> num_tests r = 1 \<and> num_passed r = 1)
   \<and> (\<exists>r. fst (evaluate_single py True (gen ''t2'' src_pass spec_empty) w0) = Return r
        \<and> passed r \<and> num_tests r = 0 \<and> num_passed r = 0)
   \<and> (\<exists>r. fst (evaluate_single py True (gen ''t3'' src_syntax spec_add) w0) = Return r
        \<and> \<not> passed r)
   \<and> fst (run_test py True spec_empty src_pass w0) = Return ([], [])"
proof -
  have g: "get_code py (gen ''t1'' src_add spec_add) = Inr src_add"
    "get_io py (gen ''t1'' src_add spec_add) = spec_add"
    "get_code py (gen ''t2'' src_pass spec_empty) = Inr src_pass"
    "get_io py (gen ''t2'' src_pass spec_empty) = spec_empty"
    "get_code py (gen ''t3'' src_syntax spec_add) = Inr src_syntax"
    "get_io py (gen ''t3'' src_syntax spec_add) = spec_add"
    by (simp_all add: get_code_def get_io_def gen_def dict_get_def src_add_def src_pass_def
          src_syntax_def)
  have r1: "run_test py True spec_add src_add w0 =
      (Return ([PBool True], [None]), snd (run_test py True spec_add src_add w0))"
    by (simp add: run_defs ex_defs prod_eq_iff)
  have r2: "run_test py True spec_empty src_pass w0 =
      (Return ([], []), snd (run_test py True spec_empty src_pass w0))"
    by (simp add: run_defs ex_defs prod_eq_iff)
  have r3: "run_test py True spec_add src_syntax w0 =
      (Return ([PInt (- 2)], [Some (ErrD ''SyntaxError'' ''invalid syntax (<string>, line 1)'')]),
       snd (run_test py True spec_add src_syntax w0))"
    by (simp add: run_defs ex_defs prod_eq_iff)
  have l: "json_loads py spec_empty = Inr (PDict [(''inputs'', PList []), (''outputs'', PList [])])"
    "py_iter (dict_get [(''inputs'', PList []), (''outputs'', PList [])] ''inputs'' (PList []))
       = Inr []"
    "create_module_from_string py ''tmp'' src_pass w0 =
       (Return 1, snd (create_module_from_string py ''tmp'' src_pass w0))"
    by (simp_all add: run_defs ex_defs dict_get_def prod_eq_iff)
  have c1: "\<exists>r. fst (evaluate_single py True (gen ''t1'' src_add spec_add) w0) = Return r
        \<and> passed r \<and> num_tests r = 1 \<and> num_passed r = 1"
    using passed_iff_all_true
      [of py "gen ''t1'' src_add spec_add" src_add True w0 "[PBool True]" "[None]"
        "snd (run_test py True spec_add src_add w0)", THEN conjunct1] g r1
    by auto
  have c2: "\<exists>r. fst (evaluate_single py True (gen ''t2'' src_pass spec_empty) w0) = Return r
        \<and> passed r \<and> num_tests r = 0 \<and> num_passed r = 0"
    using passed_iff_all_true
      [of py "gen ''t2'' src_pass spec_empty" src_pass True w0 "[]" "[]"
        "snd (run_test py True spec_empty src_pass w0)", THEN conjunct1] g r2
    by auto
  have c3: "\<exists>r. fst (evaluate_single py True (gen ''t3'' src_syntax spec_add) w0) = Return r
        \<and> \<not> passed r"
    using passed_iff_all_true
      [of py "gen ''t3'' src_syntax spec_add" src_syntax True w0 "[PInt (- 2)]"
        "[Some (ErrD ''SyntaxError'' ''invalid syntax (<string>, line 1)'')]"
        "snd (run_test py True spec_add src_syntax w0)", THEN conjunct1] g r3
    by auto
  have c4: "fst (run_test py True spec_empty src_pass w0) = Return ([], [])"
    using passed_iff_all_true
      [where I = py and code = src_pass and sig = True and w = w0 and s = spec_empty
         and d = "[(''inputs'', PList []), (''outputs'', PList [])]" and m = 1
         and ?w1.0 = "snd (create_module_from_string py ''tmp'' src_pass w0)",
         THEN conjunct2] l
    by simp
  from c1 c2 c3 c4 show ?thesis
    by blast
qed

section \<open>The error histogram\<close>




















section \<open>More inputs than outputs\<close>











section \<open>The alarm\<close>

text \<open>
  What the model can say about the deadline: with \<^verbatim>\<open>SIGNAL_AVAILABLE\<close> the alarm is set
  to \<open>TIMEOUT = 10\<close> seconds as the first step of every case and is off again whenever the
  case is over, on the normal path and in the handler alike; on Windows the module
  prints its warning and never sets an alarm. Whether and when a running candidate is
  interrupted is a matter of wall-clock time and signal delivery, outside this model.
\<close>

lemma alarm_armed_first:
  "trace (world (arm True st)) = trace (world st) @ [EvAlarm 10]
   \<and> alarm (world (arm True st)) = 10"
  by (simp add: arm_def signal_alarm_def TIMEOUT_def)

lemma alarm_disarmed_after_case:
  assumes "fst (run_case I True fn_name m test outs i inp st) = Return ()"
  shows "alarm (world (snd (run_case I True fn_name m test outs i inp st))) = 0"
proof (cases "py_truthy fn_name")
  case True
  show ?thesis
    using assms unfolding run_case_def function_case_shape [OF True]
    by (auto simp: disarm_def signal_alarm_def case_handler_def Let_def
          split: prod.splits outcome.splits sum.splits if_splits)
next
  case False
  show ?thesis
    using assms unfolding run_case_def script_case_shape [OF False]
    by (auto simp: disarm_def signal_alarm_def case_handler_def Let_def
          split: prod.splits outcome.splits sum.splits if_splits)
qed

lemma module_init_platforms:
  "module_init ''Windows'' = (False, [''Warning: Timeout not available on Windows''])
   \<and> module_init ''Linux'' = (True, [])
   \<and> \<not> SIGNAL_AVAILABLE ''Windows''"
  by (simp add: module_init_def SIGNAL_AVAILABLE_def)

lemma no_alarm_without_signal:
  "alarm (world (arm False st)) = alarm (world st)
   \<and> alarm (world (disarm False st)) = alarm (world st)"
  by (simp add: arm_def disarm_def)

end
